theory Spec2Isabelle
  imports Main "HOL-Library.Word" "HOL-Library.Finite_Map"
begin

unbundle bit_operations_syntax

chapter \<open>gitleaks-ls: scan orchestration, result cache and coordinate normalisation\<close>

text \<open>
  A shallow embedding of the Go sources \<open>cache.go\<close>, \<open>scanner.go\<close>, \<open>diagnostics.go\<close>,
  \<open>settings.go\<close>, \<open>handlers.go\<close>, \<open>hover.go\<close>, \<open>uri.go\<close> and \<open>workspace.go\<close>. Go strings are byte strings and are
  modelled as \<^typ>\<open>string\<close> (a list of 8-bit characters); Go's \<open>int\<close> is modelled as
  \<^typ>\<open>int\<close> (every Go value is one; no arithmetic of the modelled code can overflow it),
  \<open>uint32\<close> as \<^typ>\<open>32 word\<close>, and a conversion \<open>uint32(x)\<close> as \<^const>\<open>word_of_int\<close>,
  which keeps the low 32 bits as Go does. Locks are not modelled: every operation
  is taken as one atomic step.
\<close>

section \<open>Model\<close>

subsection \<open>Bytes, decimal and hexadecimal rendering\<close>

type_synonym byte = "8 word"
type_synonym u32 = "32 word"

definition bytes :: "string \<Rightarrow> byte list" where
  \<comment> \<open>\<open>[]byte(s)\<close>\<close>
  "bytes s = map of_char s"

definition digit :: "nat \<Rightarrow> char" where
  "digit n = (''0123456789'' ! (n mod 10))"

fun dec :: "nat \<Rightarrow> string" where
  "dec n = (if n < 10 then [digit n] else dec (n div 10) @ [digit (n mod 10)])"

declare dec.simps [simp del]

definition fmt_d :: "int \<Rightarrow> string" where
  \<comment> \<open>the verb \<open>%d\<close> of \<open>fmt.Sprintf\<close> on an \<open>int\<close>\<close>
  "fmt_d i = (if i < 0 then CHR ''-'' # dec (nat (- i)) else dec (nat i))"

definition hexdigit :: "nat \<Rightarrow> char" where
  "hexdigit n = (''0123456789abcdef'' ! (n mod 16))"

definition fmt_x :: "byte list \<Rightarrow> string" where
  \<comment> \<open>the verb \<open>%x\<close> of \<open>fmt.Sprintf\<close> on a byte slice: two lower-case digits a byte\<close>
  "fmt_x bs = concat (map (\<lambda>b. [hexdigit (unat b div 16), hexdigit (unat b mod 16)]) bs)"

subsection \<open>\<open>crypto/sha256\<close>\<close>

text \<open>
  \<open>sha256.Sum256\<close> of the Go standard library, written out after FIPS 180-4: the
  message is padded to a multiple of 64 bytes, read as big-endian 32-bit words and
  compressed block by block.
\<close>

definition sha256_K :: "u32 list" where
  "sha256_K =
     [0x428a2f98, 0x71374491, 0xb5c0fbcf, 0xe9b5dba5] @
     [0x3956c25b, 0x59f111f1, 0x923f82a4, 0xab1c5ed5] @
     [0xd807aa98, 0x12835b01, 0x243185be, 0x550c7dc3] @
     [0x72be5d74, 0x80deb1fe, 0x9bdc06a7, 0xc19bf174] @
     [0xe49b69c1, 0xefbe4786, 0x0fc19dc6, 0x240ca1cc] @
     [0x2de92c6f, 0x4a7484aa, 0x5cb0a9dc, 0x76f988da] @
     [0x983e5152, 0xa831c66d, 0xb00327c8, 0xbf597fc7] @
     [0xc6e00bf3, 0xd5a79147, 0x06ca6351, 0x14292967] @
     [0x27b70a85, 0x2e1b2138, 0x4d2c6dfc, 0x53380d13] @
     [0x650a7354, 0x766a0abb, 0x81c2c92e, 0x92722c85] @
     [0xa2bfe8a1, 0xa81a664b, 0xc24b8b70, 0xc76c51a3] @
     [0xd192e819, 0xd6990624, 0xf40e3585, 0x106aa070] @
     [0x19a4c116, 0x1e376c08, 0x2748774c, 0x34b0bcb5] @
     [0x391c0cb3, 0x4ed8aa4a, 0x5b9cca4f, 0x682e6ff3] @
     [0x748f82ee, 0x78a5636f, 0x84c87814, 0x8cc70208] @
     [0x90befffa, 0xa4506ceb, 0xbef9a3f7, 0xc67178f2]"

definition sha256_init :: "u32 list" where
  "sha256_init =
     [0x6a09e667, 0xbb67ae85, 0x3c6ef372, 0xa54ff53a] @
     [0x510e527f, 0x9b05688c, 0x1f83d9ab, 0x5be0cd19]"

definition rotr :: "nat \<Rightarrow> u32 \<Rightarrow> u32" where
  "rotr n x = drop_bit n x OR push_bit (32 - n) x"

definition sha256_pad :: "byte list \<Rightarrow> byte list" where
  "sha256_pad m =
     m @ [0x80] @ replicate ((119 - length m mod 64) mod 64) 0 @
     map (\<lambda>i. ucast (drop_bit (8 * i) (of_nat (8 * length m) :: 64 word))) (rev [0..<8])"

fun be32s :: "byte list \<Rightarrow> u32 list" where
  "be32s (a # b # c # d # r) =
     (push_bit 24 (ucast a) OR push_bit 16 (ucast b) OR push_bit 8 (ucast c) OR ucast d) # be32s r"
| "be32s _ = []"

fun schedule :: "nat \<Rightarrow> u32 list \<Rightarrow> u32 list" where
  "schedule 0 w = w"
| "schedule (Suc n) w =
     (let t = length w;
          s0 = rotr 7 (w ! (t - 15)) XOR rotr 18 (w ! (t - 15)) XOR drop_bit 3 (w ! (t - 15));
          s1 = rotr 17 (w ! (t - 2)) XOR rotr 19 (w ! (t - 2)) XOR drop_bit 10 (w ! (t - 2))
      in schedule n (w @ [s1 + w ! (t - 7) + s0 + w ! (t - 16)]))"

fun sha256_round :: "u32 list \<Rightarrow> u32 \<times> u32 \<Rightarrow> u32 list" where
  "sha256_round [a, b, c, d, e, f, g, h] (k, w) =
     (let S1 = rotr 6 e XOR rotr 11 e XOR rotr 25 e;
          ch = (e AND f) XOR (NOT e AND g);
          t1 = h + S1 + ch + k + w;
          S0 = rotr 2 a XOR rotr 13 a XOR rotr 22 a;
          maj = (a AND b) XOR (a AND c) XOR (b AND c);
          t2 = S0 + maj
      in [t1 + t2, a, b, c, d + t1, e, f, g])"
| "sha256_round s _ = s"

definition sha256_block :: "u32 list \<Rightarrow> u32 list \<Rightarrow> u32 list" where
  "sha256_block h blk = map2 (+) h (foldl sha256_round h (zip sha256_K (schedule 48 blk)))"

definition Sum256 :: "byte list \<Rightarrow> byte list" where
  "Sum256 m =
     (let ws = be32s (sha256_pad m);
          blks = map (\<lambda>i. take 16 (drop (16 * i) ws)) [0..<length ws div 16]
      in concat (map (\<lambda>w. map (\<lambda>i. ucast (drop_bit (8 * i) w)) (rev [0..<4]))
           (foldl sha256_block sha256_init blks)))"

subsection \<open>Findings (\<open>scanner.go\<close>)\<close>

text \<open>
  \<open>float32\<close> is kept as its IEEE-754 bit pattern; the code only compares an entropy with
  zero and prints it.
\<close>

type_synonym float32 = "32 word"

definition float32_gt_zero :: "float32 \<Rightarrow> bool" where
  \<comment> \<open>\<open>f > 0\<close>: sign bit clear, not a zero, not a NaN\<close>
  "float32_gt_zero w \<longleftrightarrow>
     \<not> bit w 31 \<and> w \<noteq> 0 \<and> \<not> (w AND 0x7F800000 = 0x7F800000 \<and> w AND 0x007FFFFF \<noteq> 0)"

text \<open>
  \<open>report.Finding\<close> of gitleaks, with the fields this program reads. The program's own
  \<open>Finding\<close> has the same fields and a \<open>Fingerprint\<close>. (The field \<open>Line\<close> of both is named
  \<open>LineText\<close> here, since \<open>Line\<close> is also a field of an LSP position.)
\<close>

record report_Finding =
  RuleID :: string
  Description :: string
  Match :: string
  Secret :: string
  StartLine :: int
  EndLine :: int
  StartColumn :: int
  EndColumn :: int
  LineText :: string
  Entropy :: float32
  File :: string

record Finding = report_Finding +
  Fingerprint :: string

datatype error =
    Canceled \<comment> \<open>\<open>context.Canceled\<close>\<close>
  | DeadlineExceeded \<comment> \<open>\<open>context.DeadlineExceeded\<close>\<close>
  | IOError string \<comment> \<open>an error of package \<open>os\<close>\<close>
  | ErrTooLong \<comment> \<open>\<open>bufio.ErrTooLong\<close>\<close>
  | Wrapped string error \<comment> \<open>\<open>fmt.Errorf("...: %w", err)\<close>\<close>

record Fragment =
  Raw :: string
  FilePath :: string

type_synonym Detector = "Fragment \<Rightarrow> report_Finding list"
  \<comment> \<open>\<open>detect.Detector\<close> of gitleaks, as the function its method \<open>Detect\<close> computes\<close>

record 'c Scanner =
  detector :: Detector
  config :: 'c \<comment> \<open>\<open>config.Config\<close> of gitleaks, left abstract\<close>
  ignoreFilePath :: string
  ignoreSet :: "string set"

text \<open>
  The file tree that \<open>filepath.WalkDir\<close> visits: a file with its name and the size that
  \<open>d.Info()\<close> reports (\<open>None\<close> when \<open>d.Info()\<close> fails), or a directory with its name and
  the entries \<open>os.ReadDir\<close> returns for it, in lexical order (those read before an error,
  when \<open>os.ReadDir\<close> fails). An entry that is not a directory is walked as a file.
\<close>

datatype Entry =
    FileEntry (ename: string) "int option"
  | DirEntry (ename: string) "Entry list"

type_synonym GitIgnore = "string \<Rightarrow> bool"
  \<comment> \<open>\<open>ignore.GitIgnore\<close> of sabhiram/go-gitignore, as the function \<open>MatchesPath\<close>\<close>

text \<open>
  What the program takes from outside itself: the detector that gitleaks builds from a
  configuration, the float formatting of \<open>fmt\<close> (\<open>%.1f\<close>, \<open>%.2f\<close>), the file
  system as the calls of packages \<open>os\<close> and \<open>filepath\<close> see it, and the two libraries that
  compile a \<open>.gitignore\<close> and recognise a file type by its first bytes.
\<close>

record 'c Env =
  NewDetector :: "'c \<Rightarrow> Detector" \<comment> \<open>\<open>detect.NewDetector\<close>\<close>
  fmt_f :: "nat \<Rightarrow> float32 \<Rightarrow> string" \<comment> \<open>\<open>fmt.Sprintf("%.<n>f", x)\<close>\<close>
  os_Stat :: "string \<Rightarrow> bool" \<comment> \<open>\<open>os.Stat\<close> returns no error\<close>
  os_Lines :: "string \<Rightarrow> error + string list \<times> error option"
    \<comment> \<open>\<open>os.Open\<close> and a \<open>bufio.Scanner\<close> run to its end: the lines read, and \<open>scanner.Err()\<close>\<close>
  os_ReadFile :: "string \<Rightarrow> error + string"
  filetype_Match :: "string \<Rightarrow> string option"
    \<comment> \<open>\<open>filetype.Match\<close> of h2non/filetype: \<open>None\<close> is \<open>filetype.Unknown\<close>\<close>
  os_Tree :: "string \<Rightarrow> Entry option"
    \<comment> \<open>the tree under a root path; \<open>None\<close> when \<open>os.Lstat\<close> of the root fails\<close>
  CompileIgnoreFile :: "string \<Rightarrow> error + GitIgnore" \<comment> \<open>\<open>ignore.CompileIgnoreFile\<close>\<close>
  filepath_Abs :: "string \<Rightarrow> error + string" \<comment> \<open>\<open>filepath.Abs\<close>\<close>

definition NewScanner :: "'c Env \<Rightarrow> 'c \<Rightarrow> 'c Scanner" where
  "NewScanner env cfg =
     \<lparr>detector = NewDetector env cfg, config = cfg, ignoreFilePath = [], ignoreSet = {}\<rparr>"

subsubsection \<open>\<open>loadGitleaksIgnore\<close>\<close>

definition isSpace :: "char \<Rightarrow> bool" where
  \<comment> \<open>the ASCII white space of \<open>strings.TrimSpace\<close> (which strips the Unicode spaces
      beyond ASCII as well; those are not modelled)\<close>
  "isSpace c \<longleftrightarrow> c \<in> {CHR 0x09, CHR 0x0A, CHR 0x0B, CHR 0x0C, CHR 0x0D, CHR 0x20}"

definition HasPrefix :: "string \<Rightarrow> string \<Rightarrow> bool" where
  \<comment> \<open>\<open>strings.HasPrefix\<close>\<close>
  "HasPrefix s p = (take (length p) s = p)"

definition TrimSpace :: "string \<Rightarrow> string" where
  "TrimSpace s = rev (dropWhile isSpace (rev (dropWhile isSpace s)))"

fun Split :: "string \<Rightarrow> char \<Rightarrow> string list" where
  \<comment> \<open>\<open>strings.Split\<close> with a separator of one byte\<close>
  "Split [] sep = [[]]"
| "Split (c # cs) sep =
     (if c = sep then [] # Split cs sep
      else (case Split cs sep of
              [] \<Rightarrow> [[c]]
            | part # parts \<Rightarrow> (c # part) # parts))"

fun Join_strings :: "string list \<Rightarrow> string \<Rightarrow> string" where
  \<comment> \<open>\<open>strings.Join\<close>\<close>
  "Join_strings [] sep = []"
| "Join_strings [p] sep = p"
| "Join_strings (p # ps) sep = p @ sep @ Join_strings ps sep"

definition replacer :: "string \<Rightarrow> string" where
  \<comment> \<open>\<open>strings.NewReplacer("\\", "/").Replace\<close>\<close>
  "replacer s = map (\<lambda>c. if c = CHR 0x5C then CHR ''/'' else c) s"

fun ignoreLines :: "string list \<Rightarrow> string set \<Rightarrow> string set" where
  \<comment> \<open>the loop over \<open>scanner.Scan()\<close>\<close>
  "ignoreLines [] ignoreSet' = ignoreSet'"
| "ignoreLines (text # rest) ignoreSet' =
     (let line = TrimSpace text
      in if line = [] \<or> HasPrefix line ''#'' then ignoreLines rest ignoreSet'
         else let parts = Split line CHR '':''
              in if length parts = 3 then
                   ignoreLines rest
                     (insert (Join_strings (parts[0 := replacer (parts ! 0)]) '':'') ignoreSet')
                 else if length parts = 4 then
                   ignoreLines rest
                     (insert (Join_strings (parts[1 := replacer (parts ! 1)]) '':'') ignoreSet')
                 else ignoreLines rest ignoreSet')"

definition loadGitleaksIgnore :: "'c Env \<Rightarrow> string \<Rightarrow> string set \<times> error option" where
  "loadGitleaksIgnore env path =
     (case os_Lines env path of
        Inl err \<Rightarrow> ({}, Some err)
      | Inr (lines, scanErr) \<Rightarrow> (ignoreLines lines {}, scanErr))"

definition NewScannerWithIgnore :: "'c Env \<Rightarrow> 'c \<Rightarrow> string \<Rightarrow> 'c Scanner" where
  \<comment> \<open>the set that \<open>loadGitleaksIgnore\<close> returns is kept also when it returns an error\<close>
  "NewScannerWithIgnore env cfg ignoreFilePath' =
     (let detector' = NewDetector env cfg;
          ignoreSet' = (if ignoreFilePath' \<noteq> [] then fst (loadGitleaksIgnore env ignoreFilePath')
                        else {})
      in \<lparr>detector = detector', config = cfg, ignoreFilePath = ignoreFilePath',
          ignoreSet = ignoreSet'\<rparr>)"

subsubsection \<open>\<open>ScanContent\<close> and fingerprints\<close>

definition calculateFingerprint :: "report_Finding \<Rightarrow> string" where
  "calculateFingerprint gf =
     (let data = File gf @ '':'' @ fmt_d (StartLine gf) @ '':'' @ RuleID gf;
          hash = Sum256 (bytes data)
      in fmt_x (take 8 hash))"

definition convertGitleaksFinding :: "report_Finding \<Rightarrow> Finding" where
  "convertGitleaksFinding gf =
     (let fingerprint = calculateFingerprint gf
      in \<lparr>RuleID = RuleID gf, Description = Description gf, Match = Match gf,
          Secret = Secret gf, StartLine = StartLine gf, EndLine = EndLine gf,
          StartColumn = StartColumn gf, EndColumn = EndColumn gf, LineText = LineText gf,
          Entropy = Entropy gf, File = File gf, Fingerprint = fingerprint\<rparr>)"

definition globalFingerprint :: "'a report_Finding_scheme \<Rightarrow> string" where
  \<comment> \<open>\<open>fmt.Sprintf("%s:%s:%d", gf.File, gf.RuleID, gf.StartLine)\<close>\<close>
  "globalFingerprint gf = File gf @ '':'' @ RuleID gf @ '':'' @ fmt_d (StartLine gf)"

fun convertFindings :: "string set \<Rightarrow> report_Finding list \<Rightarrow> Finding list" where
  \<comment> \<open>the loop of \<open>ScanContent\<close> over the detector's findings\<close>
  "convertFindings ignored [] = []"
| "convertFindings ignored (gf # rest) =
     (if globalFingerprint gf \<in> ignored then convertFindings ignored rest
      else convertGitleaksFinding gf # convertFindings ignored rest)"

definition maxSize :: nat where
  "maxSize = 1000000"

definition ScanContent ::
    "'c Scanner \<Rightarrow> string \<Rightarrow> string \<Rightarrow> (Finding list \<times> error option) \<times> Fragment list" where
  \<comment> \<open>The result of the Go function, and with it the fragments handed to
      \<open>detector.Detect\<close> during the call. The context argument is unused.\<close>
  "ScanContent s filename content =
     (if length content > maxSize then (([], None), [])
      else let fragment = \<lparr>Raw = content, FilePath = filename\<rparr>;
               gitleaksFindings = detector s fragment
           in ((convertFindings (ignoreSet s) gitleaksFindings, None), [fragment]))"

subsection \<open>Coordinate normalisation and diagnostics (\<open>diagnostics.go\<close>, \<open>settings.go\<close>)\<close>

definition adjustColumn :: "int \<Rightarrow> int \<Rightarrow> bool \<Rightarrow> u32" where
  "adjustColumn col lineNum isEndColumn =
     (if col \<le> 0 then 0
      else if lineNum = 0 then
        (if isEndColumn then word_of_int col else word_of_int (max 0 (col - 1)))
      else if isEndColumn then word_of_int (max 0 (col - 1))
      else word_of_int (max 0 (col - 2)))"

record Position =
  Line :: u32
  Character :: u32

record Range =
  Start :: Position
  End :: Position

datatype DiagnosticSeverity =
  DiagnosticSeverityError | DiagnosticSeverityWarning
  | DiagnosticSeverityInformation | DiagnosticSeverityHint

record Diagnostic =
  Range' :: Range
  Severity :: DiagnosticSeverity
  Source :: string
  Message :: string
  Code :: string

record Settings =
  DiagnosticSeverity :: string

definition DefaultSettings :: Settings where
  "DefaultSettings = \<lparr>DiagnosticSeverity = ''warning''\<rparr>"

definition GetDiagnosticSeverity :: "Settings \<Rightarrow> DiagnosticSeverity" where
  \<comment> \<open>the global \<open>serverSettings\<close> is an argument\<close>
  "GetDiagnosticSeverity serverSettings =
     (if DiagnosticSeverity serverSettings = ''error'' then DiagnosticSeverityError
      else if DiagnosticSeverity serverSettings = ''warning'' then DiagnosticSeverityWarning
      else if DiagnosticSeverity serverSettings = ''information'' then DiagnosticSeverityInformation
      else if DiagnosticSeverity serverSettings = ''hint'' then DiagnosticSeverityHint
      else DiagnosticSeverityWarning)"

definition formatDiagnosticMessage :: "'c Env \<Rightarrow> Finding \<Rightarrow> string" where
  "formatDiagnosticMessage env f =
     (let msg = RuleID f @ '': '' @ Description f
      in if float32_gt_zero (Entropy f)
         then msg @ '' (entropy: '' @ fmt_f env 1 (Entropy f) @ '')''
         else msg)"

definition FindingToDiagnostic :: "'c Env \<Rightarrow> Settings \<Rightarrow> Finding \<Rightarrow> Diagnostic" where
  "FindingToDiagnostic env serverSettings f =
     (let severity = GetDiagnosticSeverity serverSettings;
          startChar = adjustColumn (StartColumn f) (StartLine f) False;
          endChar = adjustColumn (EndColumn f) (StartLine f) True
      in \<lparr>Range' = \<lparr>Start = \<lparr>Line = word_of_int (StartLine f), Character = startChar\<rparr>,
                      End = \<lparr>Line = word_of_int (EndLine f), Character = endChar\<rparr>\<rparr>,
          Severity = severity,
          Source = ''gitleaks'',
          Message = formatDiagnosticMessage env f,
          Code = RuleID f\<rparr>)"

definition FindingsToDiagnostics :: "'c Env \<Rightarrow> Settings \<Rightarrow> Finding list \<Rightarrow> Diagnostic list" where
  "FindingsToDiagnostics env serverSettings findings =
     map (FindingToDiagnostic env serverSettings) findings"

subsection \<open>The result cache (\<open>cache.go\<close>)\<close>

record Cache =
  entries :: "(byte list, Finding list) fmap"

definition NewCache :: Cache where
  "NewCache = \<lparr>entries = fmempty\<rparr>"

definition Get :: "Cache \<Rightarrow> string \<Rightarrow> Finding list \<times> bool" where
  \<comment> \<open>a missing key gives the zero value \<open>nil\<close> (the empty list) and \<open>false\<close>\<close>
  "Get c content =
     (let hash = Sum256 (bytes content)
      in case fmlookup (entries c) hash of None \<Rightarrow> ([], False) | Some findings \<Rightarrow> (findings, True))"

definition Put :: "Cache \<Rightarrow> string \<Rightarrow> Finding list \<Rightarrow> Cache" where
  "Put c content findings =
     (let hash = Sum256 (bytes content)
      in c\<lparr>entries := fmupd hash findings (entries c)\<rparr>)"

definition Clear :: "Cache \<Rightarrow> Cache" where
  "Clear c = c\<lparr>entries := fmempty\<rparr>"

definition Size :: "Cache \<Rightarrow> nat" where
  "Size c = fcard (fmdom (entries c))"

subsection \<open>Documents and the server (\<open>handlers.go\<close>)\<close>

record Document =
  URI :: string
  Version :: "32 word" \<comment> \<open>\<open>int32\<close>, read with \<^const>\<open>sint\<close>\<close>
  Content :: string
  Diagnostics :: "Diagnostic list"
  Findings :: "Finding list"

type_synonym DocumentStore = "string \<rightharpoonup> Document"

definition NewDocumentStore :: DocumentStore where
  "NewDocumentStore = Map.empty"

definition Set_doc :: "DocumentStore \<Rightarrow> string \<Rightarrow> 32 word \<Rightarrow> string \<Rightarrow> DocumentStore" where
  \<comment> \<open>\<open>DocumentStore.Set\<close>: the new document has no diagnostics and no findings\<close>
  "Set_doc ds uri version content =
     ds(uri \<mapsto> \<lparr>URI = uri, Version = version, Content = content, Diagnostics = [], Findings = []\<rparr>)"

definition Get_doc :: "DocumentStore \<Rightarrow> string \<Rightarrow> Document option" where
  \<comment> \<open>\<open>DocumentStore.Get\<close>: \<open>None\<close> is \<open>(nil, false)\<close>\<close>
  "Get_doc ds uri = ds uri"

definition Delete_doc :: "DocumentStore \<Rightarrow> string \<Rightarrow> DocumentStore" where
  "Delete_doc ds uri = ds(uri := None)"

record 'c Config =
  path :: string
  rootPath :: string
  cfg :: 'c

definition GetConfig :: "'c Config \<Rightarrow> 'c" where
  "GetConfig c = cfg c"

record 'c Server =
  scanner :: "'c Scanner"
  documents :: DocumentStore
  config' :: "'c Config option" \<comment> \<open>the pointer \<open>config\<close>; \<open>None\<close> is \<open>nil\<close>\<close>
  cache :: Cache

definition Join :: "string \<Rightarrow> string \<Rightarrow> string" where
  \<comment> \<open>\<open>filepath.Join\<close> of a clean directory path and a file name, on Unix\<close>
  "Join dir name = (if dir = [] then name else if dir = ''/'' then dir @ name else dir @ ''/'' @ name)"

definition findIgnoreFile :: "'c Env \<Rightarrow> string \<Rightarrow> string" where
  "findIgnoreFile env root =
     (if root = [] then []
      else let ignoreFile = Join root ''.gitleaksignore''
           in if os_Stat env ignoreFile then ignoreFile else [])"

text \<open>
  The global \<open>globalServer\<close> is a \<^typ>\<open>'c Server option\<close> where the code tests it against
  \<open>nil\<close>, and a \<^typ>\<open>'c Server\<close> in the handlers that use it without a test. The two
  reload triggers are the callback that \<open>SetupServer\<close> hands to \<open>NewConfig\<close>, run by the
  configuration watcher after a successful reload, and the body that \<open>watchIgnoreFile\<close>
  runs on an event of the directory watcher.
\<close>

definition onReload :: "'c Env \<Rightarrow> string \<Rightarrow> 'c Server option \<Rightarrow> 'c Server option" where
  "onReload env root globalServer =
     (case globalServer of
        None \<Rightarrow> None
      | Some srv \<Rightarrow>
          let srv1 =
            (case config' srv of
               None \<Rightarrow> srv
             | Some c \<Rightarrow>
                 let ignoreFile = findIgnoreFile env root;
                     newScanner = NewScannerWithIgnore env (GetConfig c) ignoreFile
                 in srv\<lparr>scanner := newScanner\<rparr>)
          in Some (srv1\<lparr>cache := Clear (cache srv1)\<rparr>))"

datatype Op = Create | Write | Remove | Rename | Chmod

record Event =
  Name :: string
  Ops :: "Op set" \<comment> \<open>the bit set \<open>event.Op\<close>\<close>

definition Base :: "string \<Rightarrow> string" where
  \<comment> \<open>\<open>filepath.Base\<close> on Unix\<close>
  "Base p =
     (let q = rev (dropWhile (\<lambda>c. c = CHR ''/'') (rev p))
      in if p = [] then ''.''
         else if q = [] then ''/''
         else rev (takeWhile (\<lambda>c. c \<noteq> CHR ''/'') (rev q)))"

definition watchIgnoreFile_event ::
    "'c Env \<Rightarrow> string \<Rightarrow> Event \<Rightarrow> 'c Server option \<Rightarrow> 'c Server option" where
  \<comment> \<open>one turn of the loop of \<open>watchIgnoreFile\<close> that receives an event\<close>
  "watchIgnoreFile_event env root event globalServer =
     (if Base (Name event) = ''.gitleaksignore'' \<and> Ops event \<inter> {Write, Create} \<noteq> {} then
        (case globalServer of
           None \<Rightarrow> None
         | Some srv \<Rightarrow>
             (case config' srv of
                None \<Rightarrow> Some srv
              | Some c \<Rightarrow>
                  let ignoreFile = findIgnoreFile env root;
                      newScanner = NewScannerWithIgnore env (GetConfig c) ignoreFile
                  in Some (srv\<lparr>scanner := newScanner, cache := Clear (cache srv)\<rparr>)))
      else globalServer)"

definition SetupServer :: "'c Env \<Rightarrow> string \<Rightarrow> error + 'c Config \<Rightarrow> error + 'c Server" where
  \<comment> \<open>the third argument is what \<open>NewConfig\<close> returns; the two watchers that are started
      are the triggers above\<close>
  "SetupServer env root newConfig =
     (let cache0 = NewCache;
          ignoreFilePath' = findIgnoreFile env root
      in case newConfig of
           Inl err \<Rightarrow> Inl err
         | Inr c \<Rightarrow>
             Inr \<lparr>scanner = NewScannerWithIgnore env (GetConfig c) ignoreFilePath',
                  documents = NewDocumentStore, config' = Some c, cache = cache0\<rparr>)"

type_synonym Notification = "string \<times> Diagnostic list"
  \<comment> \<open>\<open>PublishDiagnosticsParams\<close>: the URI and its diagnostics\<close>

definition scanAndPublish ::
    "'c Env \<Rightarrow> Settings \<Rightarrow> 'c Server \<Rightarrow> string \<Rightarrow> string
      \<Rightarrow> error option \<times> 'c Server \<times> Notification list" where
  \<comment> \<open>returns the error, the server afterwards and the notifications sent\<close>
  "scanAndPublish env serverSettings srv uri content =
     (let (cached, ok) = Get (cache srv) content;
          ((findings, err), calls) =
            (if ok then ((cached, None), []) else ScanContent (scanner srv) uri content)
      in if \<not> ok \<and> err \<noteq> None then (err, srv, [])
         else
           let srv1 = (if ok then srv else srv\<lparr>cache := Put (cache srv) content findings\<rparr>);
               diagnostics = FindingsToDiagnostics env serverSettings findings;
               srv2 =
                 (case Get_doc (documents srv1) uri of
                    None \<Rightarrow> srv1
                  | Some doc \<Rightarrow>
                      srv1\<lparr>documents := (documents srv1)
                        (uri \<mapsto> doc\<lparr>Diagnostics := diagnostics, Findings := findings\<rparr>)\<rparr>)
           in (None, srv2, [(uri, diagnostics)]))"

definition textDocumentDidOpen ::
    "'c Env \<Rightarrow> Settings \<Rightarrow> 'c Server \<Rightarrow> string \<Rightarrow> 32 word \<Rightarrow> string
      \<Rightarrow> error option \<times> 'c Server \<times> Notification list" where
  "textDocumentDidOpen env serverSettings srv uri version content =
     scanAndPublish env serverSettings
       (srv\<lparr>documents := Set_doc (documents srv) uri version content\<rparr>) uri content"

subsection \<open>Hover (\<open>hover.go\<close>)\<close>







subsection \<open>The workspace scan (\<open>workspace.go\<close>, \<open>uri.go\<close>)\<close>

subsubsection \<open>\<open>collectFiles\<close>\<close>

definition binaryExts :: "string list" where
  \<comment> \<open>the keys of the map \<open>binaryExts\<close>, all with the value \<open>true\<close>\<close>
  "binaryExts =
     [''.exe'', ''.dll'', ''.so'', ''.dylib''] @
     [''.png'', ''.jpg'', ''.jpeg'', ''.gif'', ''.ico'', ''.webp''] @
     [''.pdf'', ''.doc'', ''.docx'', ''.xls'', ''.xlsx''] @
     [''.zip'', ''.tar'', ''.gz'', ''.rar'', ''.7z''] @
     [''.bin'', ''.dat'', ''.db'', ''.sqlite''] @
     [''.pyc'', ''.pyo'', ''.class''] @
     [''.woff'', ''.woff2'', ''.ttf'', ''.eot''] @
     [''.mp3'', ''.mp4'', ''.wav'', ''.avi'', ''.mov''] @
     [''.o'', ''.a'', ''.lib'']"

definition Ext :: "string \<Rightarrow> string" where
  \<comment> \<open>\<open>filepath.Ext\<close> on Unix: from the last dot of the last path element on\<close>
  "Ext p =
     (let lastElem = takeWhile (\<lambda>c. c \<noteq> CHR ''/'') (rev p)
      in if CHR ''.'' \<in> set lastElem
         then CHR ''.'' # rev (takeWhile (\<lambda>c. c \<noteq> CHR ''.'') lastElem)
         else [])"

definition ToLower :: "string \<Rightarrow> string" where
  \<comment> \<open>\<open>strings.ToLower\<close> on ASCII letters (it lowers the letters beyond ASCII as well;
      those are not modelled)\<close>
  "ToLower s =
     map (\<lambda>c. case map_of (zip ''ABCDEFGHIJKLMNOPQRSTUVWXYZ'' ''abcdefghijklmnopqrstuvwxyz'') c of
                 None \<Rightarrow> c | Some l \<Rightarrow> l) s"

definition isBinaryExtension :: "string \<Rightarrow> bool" where
  "isBinaryExtension name = (let ext = ToLower (Ext name) in ext \<in> set binaryExts)"

definition loadGitignore :: "'c Env \<Rightarrow> string \<Rightarrow> GitIgnore option" where
  "loadGitignore env root =
     (case CompileIgnoreFile env (Join root ''.gitignore'') of
        Inl err \<Rightarrow> None
      | Inr gitignore \<Rightarrow> Some gitignore)"

definition MatchesPath :: "GitIgnore option \<Rightarrow> string \<Rightarrow> bool" where
  \<comment> \<open>\<open>gitignore != nil && gitignore.MatchesPath(relPath)\<close>\<close>
  "MatchesPath gitignore relPath = (case gitignore of None \<Rightarrow> False | Some m \<Rightarrow> m relPath)"

definition Rel_child :: "string \<Rightarrow> string \<Rightarrow> string" where
  \<comment> \<open>\<open>filepath.Rel(rootPath, path)\<close> of an entry, from that of its directory: the root
      itself has \<open>"."\<close>\<close>
  "Rel_child relPath name = (if relPath = ''.'' then name else relPath @ ''/'' @ name)"

text \<open>
  The walk of \<open>filepath.WalkDir\<close> with the function literal of \<open>collectFiles\<close> as its
  callback. The callback returns \<open>nil\<close> or \<open>filepath.SkipDir\<close>, the latter for a directory
  only, so the walk never stops early and never fails; the result is the slice \<open>files\<close>.
\<close>

fun walkDir :: "GitIgnore option \<Rightarrow> string \<Rightarrow> string \<Rightarrow> Entry \<Rightarrow> string list"
  and walkEntries :: "GitIgnore option \<Rightarrow> string \<Rightarrow> string \<Rightarrow> Entry list \<Rightarrow> string list" where
  "walkDir gitignore p relPath (DirEntry name dirs) =
     (if HasPrefix name ''.'' then []
      else if name \<in> {''node_modules'', ''vendor'', ''__pycache__'', ''target'', ''build'', ''dist''}
        then []
      else if MatchesPath gitignore relPath then []
      else walkEntries gitignore p relPath dirs)"
| "walkDir gitignore p relPath (FileEntry name info) =
     (if HasPrefix name ''.'' then []
      else if isBinaryExtension name then []
      else if MatchesPath gitignore relPath then []
      else case info of
             None \<Rightarrow> []
           | Some size' \<Rightarrow> if size' > 1000000 then [] else [p])"
| "walkEntries gitignore p relPath [] = []"
| "walkEntries gitignore p relPath (d1 # rest) =
     walkDir gitignore (Join p (ename d1)) (Rel_child relPath (ename d1)) d1
     @ walkEntries gitignore p relPath rest"

definition collectFiles :: "'c Env \<Rightarrow> string \<Rightarrow> string list \<times> error option" where
  \<comment> \<open>when \<open>os.Lstat\<close> of the root fails the callback is called with the error and
      returns \<open>nil\<close>\<close>
  "collectFiles env root =
     (let gitignore = loadGitignore env root
      in case os_Tree env root of
           None \<Rightarrow> ([], None)
         | Some d \<Rightarrow> (walkDir gitignore root ''.'' d, None))"

text \<open>
  The exclusion rules in the words of the specification: every file of the tree is a
  candidate, with the directories on the way to it (the root included); it is scannable
  iff it survives every rule.
\<close>

record Candidate =
  cand_path :: string
  cand_rel :: string
  cand_name :: string
  cand_size :: "int option"
  cand_dirs :: "(string \<times> string) list" \<comment> \<open>name and relative path of every directory above\<close>

fun candidates :: "string \<Rightarrow> string \<Rightarrow> (string \<times> string) list \<Rightarrow> Entry \<Rightarrow> Candidate list"
  and candidatesIn :: "string \<Rightarrow> string \<Rightarrow> (string \<times> string) list \<Rightarrow> Entry list \<Rightarrow> Candidate list"
  where
  "candidates p relPath parents (DirEntry name dirs) =
     candidatesIn p relPath (parents @ [(name, relPath)]) dirs"
| "candidates p relPath parents (FileEntry name info) =
     [\<lparr>cand_path = p, cand_rel = relPath, cand_name = name, cand_size = info, cand_dirs = parents\<rparr>]"
| "candidatesIn p relPath parents [] = []"
| "candidatesIn p relPath parents (d1 # rest) =
     candidates (Join p (ename d1)) (Rel_child relPath (ename d1)) parents d1
     @ candidatesIn p relPath parents rest"

definition dir_survives :: "GitIgnore option \<Rightarrow> string \<times> string \<Rightarrow> bool" where
  "dir_survives gitignore d \<longleftrightarrow>
     \<not> HasPrefix (fst d) ''.'' \<and>
     fst d \<notin> {''node_modules'', ''vendor'', ''__pycache__'', ''target'', ''build'', ''dist''} \<and>
     \<not> MatchesPath gitignore (snd d)"

definition survives :: "GitIgnore option \<Rightarrow> Candidate \<Rightarrow> bool" where
  "survives gitignore c \<longleftrightarrow>
     list_all (dir_survives gitignore) (cand_dirs c) \<and>
     \<not> HasPrefix (cand_name c) ''.'' \<and>
     \<not> MatchesPath gitignore (cand_rel c) \<and>
     \<not> isBinaryExtension (cand_name c) \<and>
     (case cand_size c of None \<Rightarrow> False | Some n \<Rightarrow> n \<le> 1000000)"

subsubsection \<open>\<open>scanFile\<close> and \<open>ScanWorkspace\<close>\<close>

definition isBinaryContent :: "'c Env \<Rightarrow> string \<Rightarrow> bool" where
  "isBinaryContent env content =
     (let head = (if length content > 262 then take 262 content else content);
          kind = filetype_Match env head
      in kind \<noteq> None)"

definition scanFile ::
    "'c Env \<Rightarrow> 'c Server \<Rightarrow> string \<Rightarrow> (Finding list \<times> error option) \<times> Fragment list" where
  "scanFile env s filePath =
     (case os_ReadFile env filePath of
        Inl err \<Rightarrow> (([], Some err), [])
      | Inr content \<Rightarrow>
          if isBinaryContent env content then (([], None), [])
          else ScanContent (scanner s) filePath content)"

definition pathToURI :: "'c Env \<Rightarrow> string \<Rightarrow> string" where
  \<comment> \<open>on Unix\<close>
  "pathToURI env p =
     (if p = [] then []
      else let absPath = (case filepath_Abs env p of Inl err \<Rightarrow> p | Inr a \<Rightarrow> a)
           in ''file://'' @ absPath)"

record WorkspaceScanResult =
  TotalFiles :: int
  ScannedFiles :: int
  SkippedFiles :: int
  TotalFindings :: int
  Findings' :: "string \<rightharpoonup> Finding list"

text \<open>
  What the goroutines of \<open>ScanWorkspace\<close> share: the two counters and the map
  \<open>result.Findings\<close>. A goroutine is taken as one step on them (the semaphore and the
  mutex are not modelled).
\<close>

record Shared =
  scanned :: int
  skipped :: int
  found :: "string \<rightharpoonup> Finding list"

definition goroutine :: "'c Env \<Rightarrow> 'c Server \<Rightarrow> string \<Rightarrow> Shared \<Rightarrow> Shared" where
  "goroutine env s filePath sh =
     (let ((findings, err), calls) = scanFile env s filePath
      in if err \<noteq> None then sh\<lparr>skipped := skipped sh + 1\<rparr>
         else let sh1 = sh\<lparr>scanned := scanned sh + 1\<rparr>
              in if length findings > 0
                 then sh1\<lparr>found := (found sh1)(pathToURI env filePath \<mapsto> findings)\<rparr>
                 else sh1)"

text \<open>
  The loop of \<open>ScanWorkspace\<close> over \<open>files\<close> from index \<open>i\<close> on. The context is the function
  \<open>ctxErr\<close>: \<open>ctxErr i\<close> is \<open>None\<close> when \<open>ctx.Done()\<close> is not ready at the \<open>select\<close> of turn
  \<open>i\<close>, and \<open>ctx.Err()\<close> otherwise. The loop returns the files for which a goroutine was
  started, the turns at which progress was reported, and the error of an early return.
  (The percentage reported is a \<open>float64\<close> computation and is left out.)
\<close>

fun dispatch ::
    "(nat \<Rightarrow> error option) \<Rightarrow> bool \<Rightarrow> nat \<Rightarrow> string list
      \<Rightarrow> (string list \<times> nat list) \<times> error option" where
  "dispatch ctxErr progress i [] = (([], []), None)"
| "dispatch ctxErr progress i (file # rest) =
     (case ctxErr i of
        Some e \<Rightarrow> (([], []), Some e)
      | None \<Rightarrow>
          let ((started, reports), r) = dispatch ctxErr progress (Suc i) rest
          in ((file # started, (if progress \<and> i mod 10 = 0 then [i] else []) @ reports), r))"

definition run_goroutines :: "'c Env \<Rightarrow> 'c Server \<Rightarrow> string list \<Rightarrow> Shared" where
  \<comment> \<open>the goroutines of the given files, run to their end one after the other\<close>
  "run_goroutines env s fs =
     foldl (\<lambda>sh file. goroutine env s file sh) \<lparr>scanned = 0, skipped = 0, found = Map.empty\<rparr> fs"

text \<open>
  \<open>ScanWorkspace\<close>. After a full loop \<open>wg.Wait()\<close> lets every goroutine finish; they are
  run here in the order of their start, which is one of the orders the scheduler may
  choose. An early return does not wait: \<open>finished\<close> tells which of the started
  goroutines have run to their end by then, and only their entries are in the map of the
  result returned; the counters are copied into the result after \<open>wg.Wait()\<close> only. The
  function returns the result and the error of the Go function, the files for which a
  goroutine was started, and the progress reports.
\<close>

definition ScanWorkspace ::
    "'c Env \<Rightarrow> 'c Server \<Rightarrow> (nat \<Rightarrow> error option) \<Rightarrow> (string \<Rightarrow> bool) \<Rightarrow> string \<Rightarrow> bool
      \<Rightarrow> (WorkspaceScanResult option \<times> error option) \<times> string list \<times> nat list" where
  "ScanWorkspace env s ctxErr finished root progress =
     (if root = [] then ((None, None), [], [])
      else
        case collectFiles env root of
          (files, Some err) \<Rightarrow> ((None, Some (Wrapped ''collecting files'' err)), [], [])
        | (files, None) \<Rightarrow>
            let result = \<lparr>TotalFiles = int (length files), ScannedFiles = 0, SkippedFiles = 0,
                          TotalFindings = 0, Findings' = Map.empty\<rparr>;
                ((started, reports), r) = dispatch ctxErr progress 0 files
            in case r of
                 Some e \<Rightarrow>
                   let sh = run_goroutines env s (filter finished started)
                   in ((Some (result\<lparr>Findings' := found sh\<rparr>), Some e), started, reports)
               | None \<Rightarrow>
                   let sh = run_goroutines env s started
                   in ((Some (result\<lparr>ScannedFiles := scanned sh, SkippedFiles := skipped sh,
                          TotalFindings := (\<Sum>uri \<in> dom (found sh). int (length (the (found sh uri)))),
                          Findings' := found sh\<rparr>), None),
                       started, reports))"

subsection \<open>Concrete inputs of the examples\<close>

definition finding_of :: "string \<Rightarrow> int \<Rightarrow> string \<Rightarrow> report_Finding" where
  \<comment> \<open>a finding of the detector with a file, a start line and a rule, as the helper
      \<open>reportFindingFromFinding\<close> of the tests builds it\<close>
  "finding_of file line rule =
     \<lparr>RuleID = rule, Description = [], Match = [], Secret = [], StartLine = line, EndLine = line,
      StartColumn = 0, EndColumn = 0, LineText = [], Entropy = 0, File = file\<rparr>"

definition example_detector :: Detector where
  "example_detector fr =
     [(finding_of (FilePath fr) 1 ''aws-access-key'')\<lparr>StartColumn := 17, EndColumn := 36\<rparr>,
      (finding_of (FilePath fr) 5 ''generic-api-key'')\<lparr>StartColumn := 3, EndColumn := 9\<rparr>]"

definition example_tree :: Entry where
  \<comment> \<open>the files of the test \<open>TestCollectFiles\<close> named in the specification\<close>
  "example_tree =
     DirEntry ''w''
       [DirEntry ''.git'' [FileEntry ''config'' (Some 11)],
        FileEntry ''.hidden'' (Some 12),
        FileEntry ''image.png'' (Some 7),
        FileEntry ''main.go'' (Some 13),
        DirEntry ''node_modules'' [FileEntry ''x.js'' (Some 7)]]"

definition example_tree_gitignore :: Entry where
  \<comment> \<open>the files of the test \<open>TestCollectFiles_WithGitignore\<close>\<close>
  "example_tree_gitignore =
     DirEntry ''w''
       [FileEntry ''.gitignore'' (Some 13),
        DirEntry ''build'' [FileEntry ''out.go'' (Some 13)],
        FileEntry ''debug.log'' (Some 9),
        FileEntry ''main.go'' (Some 13)]"

definition png_magic :: string where
  "png_magic = [CHR 0x89, CHR 0x50, CHR 0x4E, CHR 0x47, CHR 0x0D, CHR 0x0A, CHR 0x1A, CHR 0x0A]"

definition example_env :: "unit Env" where
  "example_env =
     \<lparr>NewDetector = (\<lambda>c. example_detector),
      fmt_f = (\<lambda>n x. ''3.50''),
      os_Stat = (\<lambda>p. p = ''/w/.gitleaksignore''),
      os_Lines = (\<lambda>p. if p = ''/w/.gitleaksignore''
                      then Inr ([''# reviewed'', ''file:///w/a.go:generic-api-key:5''], None)
                      else Inl (IOError p)),
      os_ReadFile = (\<lambda>p. if p = ''/w/logo'' then Inr (png_magic @ ''rest'')
                         else if p = ''/w/main.go'' then Inr ''package main''
                         else Inl (IOError p)),
      filetype_Match = (\<lambda>head. if take 8 head = png_magic then Some ''png'' else None),
      os_Tree = (\<lambda>p. if p = ''/w'' then Some example_tree else None),
      CompileIgnoreFile = (\<lambda>p. Inl (IOError p)),
      filepath_Abs = (\<lambda>p. Inr p)\<rparr>"

definition example_server :: "unit Server" where
  "example_server =
     \<lparr>scanner = \<lparr>detector = example_detector, config = (),
                  ignoreFilePath = ''/w/.gitleaksignore'',
                  ignoreSet = {''file:///w/a.go:generic-api-key:5''}\<rparr>,
      documents = NewDocumentStore,
      config' = Some \<lparr>path = [], rootPath = ''/w'', cfg = ()\<rparr>,
      cache = NewCache\<rparr>"

definition example_uri :: string where
  "example_uri = ''file:///w/a.go''"

definition example_open :: "unit Server" where
  \<comment> \<open>the server after the document \<open>example_uri\<close> has been opened\<close>
  "example_open =
     fst (snd (textDocumentDidOpen example_env DefaultSettings example_server example_uri 1
       ''const awsKey = 1''))"

definition example_gitignore :: GitIgnore where
  \<comment> \<open>what the patterns \<open>*.log\<close> and \<open>build/\<close> match\<close>
  "example_gitignore relPath \<longleftrightarrow>
     Ext relPath = ''.log'' \<or> relPath = ''build'' \<or> HasPrefix relPath ''build/''"

definition example_env_gitignore :: "unit Env" where
  "example_env_gitignore =
     example_env
       \<lparr>os_Tree := (\<lambda>p. if p = ''/w'' then Some example_tree_gitignore else None),
        CompileIgnoreFile := (\<lambda>p. if p = ''/w/.gitignore'' then Inr example_gitignore
                                    else Inl (IOError p))\<rparr>"




subsection \<open>An invariant of the server\<close>

text \<open>
  Every list in the cache is free of the findings that the scanner of the server ignores.
\<close>

definition cache_filtered :: "'c Server \<Rightarrow> bool" where
  "cache_filtered srv \<longleftrightarrow>
     (\<forall>k F. fmlookup (entries (cache srv)) k = Some F \<longrightarrow>
        (\<forall>f \<in> set F. globalFingerprint f \<notin> ignoreSet (scanner srv)))"

section \<open>Properties\<close>

subsection \<open>Coordinate normalisation\<close>

lemma adjustColumn_nonpositive: "col \<le> 0 \<Longrightarrow> adjustColumn col lineNum isEnd = 0"
  by (simp add: adjustColumn_def)

lemma adjustColumn_later_line:
  "lineNum \<noteq> 0 \<Longrightarrow> adjustColumn col lineNum isEnd = adjustColumn col 1 isEnd"
  by (simp add: adjustColumn_def)

lemma uint_word_of_int_small:
  "0 \<le> x \<Longrightarrow> x < 4294967296 \<Longrightarrow> uint (word_of_int x :: u32) = x"
  by (simp add: uint_word_of_int take_bit_int_eq_self)

text \<open>
  Claim C1. \<open>adjustColumn\<close> is a total function into the 32-bit LSP character. On line 0
  a start column \<open>c\<close> becomes \<open>c - 1\<close> and an end column \<open>c\<close> stays \<open>c\<close>; on a line
  \<open>> 0\<close> a start column becomes \<open>c - 2\<close> and an end column \<open>c - 1\<close>; a raw column
  \<open>\<le> 0\<close> and every derived value below zero give 0. The first five conjuncts state
  the mapping in the result type \<open>uint32\<close>; the last four give the number itself for
  every column below \<open>2^32\<close>, where the conversion to \<open>uint32\<close> loses nothing.
\<close>

theorem adjustColumn_mapping:
  "(c \<le> 0 \<longrightarrow> adjustColumn c l e = 0) \<and>
   (0 < c \<longrightarrow> adjustColumn c 0 False = word_of_int (c - 1)) \<and>
   (0 < c \<longrightarrow> adjustColumn c 0 True = word_of_int c) \<and>
   (0 < c \<and> 0 < l \<longrightarrow> adjustColumn c l False = word_of_int (max 0 (c - 2))) \<and>
   (0 < c \<and> 0 < l \<longrightarrow> adjustColumn c l True = word_of_int (c - 1)) \<and>
   (0 < c \<and> c < 4294967296 \<longrightarrow> uint (adjustColumn c 0 False) = c - 1) \<and>
   (0 < c \<and> c < 4294967296 \<longrightarrow> uint (adjustColumn c 0 True) = c) \<and>
   (0 < c \<and> c < 4294967296 \<and> 0 < l \<longrightarrow> uint (adjustColumn c l False) = max 0 (c - 2)) \<and>
   (0 < c \<and> c < 4294967296 \<and> 0 < l \<longrightarrow> uint (adjustColumn c l True) = c - 1)"
proof -
  have start0: "0 < c \<Longrightarrow> adjustColumn c 0 False = word_of_int (c - 1)"
    by (simp add: adjustColumn_def max_def)
  have end0: "0 < c \<Longrightarrow> adjustColumn c 0 True = word_of_int c"
    by (simp add: adjustColumn_def)
  have startn: "0 < c \<Longrightarrow> 0 < l \<Longrightarrow> adjustColumn c l False = word_of_int (max 0 (c - 2))"
    by (simp add: adjustColumn_def)
  have endn: "0 < c \<Longrightarrow> 0 < l \<Longrightarrow> adjustColumn c l True = word_of_int (c - 1)"
    by (simp add: adjustColumn_def max_def)
  have n1: "0 < c \<Longrightarrow> c < 4294967296 \<Longrightarrow> uint (adjustColumn c 0 False) = c - 1"
    using uint_word_of_int_small [of "c - 1"] by (simp add: start0)
  have n2: "0 < c \<Longrightarrow> c < 4294967296 \<Longrightarrow> uint (adjustColumn c 0 True) = c"
    using uint_word_of_int_small [of c] by (simp add: end0)
  have n3: "0 < c \<Longrightarrow> c < 4294967296 \<Longrightarrow> 0 < l \<Longrightarrow>
      uint (adjustColumn c l False) = max 0 (c - 2)"
    using uint_word_of_int_small [of "max 0 (c - 2)"] by (simp add: startn max_def)
  have n4: "0 < c \<Longrightarrow> c < 4294967296 \<Longrightarrow> 0 < l \<Longrightarrow> uint (adjustColumn c l True) = c - 1"
    using uint_word_of_int_small [of "c - 1"] by (simp add: endn)
  show ?thesis
    using adjustColumn_nonpositive [of c l e] start0 end0 startn endn n1 n2 n3 n4 by blast
qed

theorem adjustColumn_mapping_witness:
  "adjustColumn 5 10 False = 3 \<and> adjustColumn 20 10 True = 19 \<and>
   uint (adjustColumn 5 10 False) = 3 \<and> uint (adjustColumn 20 10 True) = 19 \<and>
   adjustColumn 1 0 False = 0 \<and> adjustColumn 7 0 True = 7 \<and>
   adjustColumn (- 4) 3 False = 0 \<and> adjustColumn 1 3 False = 0"
  using adjustColumn_mapping [of 5 10 False] adjustColumn_mapping [of 20 10 True]
    adjustColumn_mapping [of 1 0 False] adjustColumn_mapping [of 7 0 True]
    adjustColumn_mapping [of "- 4" 3 False] adjustColumn_mapping [of 1 3 False]
  by simp

subsection \<open>The result cache\<close>

lemma Get_Put_same: "Get (Put c content findings) content = (findings, True)"
  by (simp add: Get_def Put_def)

lemma Size_Put: "Size (Put c content findings) =
    (if Sum256 (bytes content) |\<in>| fmdom (entries c) then Size c else Suc (Size c))"
  by (simp add: Size_def Put_def fcard_finsert_if)

text \<open>
  Claim C6. A \<open>Put\<close> followed by a \<open>Get\<close> of the same content returns the stored list
  and \<open>true\<close>; of two \<open>Put\<close>s for the same content the later list is the one returned;
  and the repeated \<open>Put\<close> leaves the number of entries as it was.
\<close>

theorem cache_put_get:
  "Get (Put c content F) content = (F, True) \<and>
   Get (Put (Put c content F1) content F2) content = (F2, True) \<and>
   Size (Put (Put c content F1) content F2) = Size (Put c content F1)"
  by (simp add: Get_Put_same Size_Put) (simp add: Put_def)

subsection \<open>Fingerprints\<close>




















subsection \<open>\<open>ScanContent\<close>\<close>

lemma convertFindings_filter:
  "convertFindings ignored gfs =
     map convertGitleaksFinding (filter (\<lambda>gf. globalFingerprint gf \<notin> ignored) gfs)"
  by (induction gfs) auto

lemma convertFindings_not_ignored:
  "f \<in> set (convertFindings ignored gfs) \<Longrightarrow> globalFingerprint f \<notin> ignored"
  by (induction gfs) (auto simp: convertGitleaksFinding_def globalFingerprint_def split: if_splits)

lemma ScanContent_not_ignored:
  "f \<in> set (fst (fst (ScanContent s filename content))) \<Longrightarrow> globalFingerprint f \<notin> ignoreSet s"
  by (auto simp: ScanContent_def Let_def dest: convertFindings_not_ignored split: if_splits)

lemma ScanContent_no_error: "snd (fst (ScanContent s filename content)) = None"
  by (simp add: ScanContent_def Let_def)


text \<open>
  Claim C10. For content of more than 1,000,000 bytes \<open>ScanContent\<close> returns no
  findings and no error, and hands nothing to the detector.
\<close>

theorem ScanContent_oversized:
  "length content > 1000000 \<Longrightarrow> ScanContent s filename content = (([], None), [])"
  by (simp add: ScanContent_def maxSize_def)

theorem ScanContent_oversized_witness:
  "ScanContent (scanner example_server) ''big.txt'' (replicate 1000001 CHR ''a'') = (([], None), [])"
  using ScanContent_oversized [of "replicate 1000001 CHR ''a''" "scanner example_server" "''big.txt''"]
  by simp

subsection \<open>\<open>scanAndPublish\<close> and the cache\<close>

lemma scanAndPublish_miss_cache:
  assumes "\<not> snd (Get (cache srv) content)"
  shows "cache (fst (snd (scanAndPublish env st srv uri content))) =
         Put (cache srv) content (fst (fst (ScanContent (scanner srv) uri content)))"
  using assms ScanContent_no_error [of "scanner srv" uri content]
  by (auto simp: scanAndPublish_def Let_def split: prod.splits option.splits)

lemma scanAndPublish_hit_cache:
  assumes "snd (Get (cache srv) content)"
  shows "cache (fst (snd (scanAndPublish env st srv uri content))) = cache srv"
  using assms
  by (auto simp: scanAndPublish_def Let_def split: prod.splits option.splits)

lemma scanAndPublish_scanner:
  "scanner (fst (snd (scanAndPublish env st srv uri content))) = scanner srv"
  by (auto simp: scanAndPublish_def Let_def split: prod.splits option.splits)

text \<open>
  Claim C3. On a cache miss \<open>scanAndPublish\<close> stores the list that \<open>ScanContent\<close>
  returns, and no finding of that list has its fingerprint \<open>File:RuleID:StartLine\<close> in
  the ignore set of the scanner that produced it.
\<close>

theorem cache_miss_stores_filtered:
  assumes "\<not> snd (Get (cache srv) content)"
  shows "Get (cache (fst (snd (scanAndPublish env st srv uri content)))) content =
           (fst (fst (ScanContent (scanner srv) uri content)), True) \<and>
         (\<forall>f \<in> set (fst (Get (cache (fst (snd (scanAndPublish env st srv uri content)))) content)).
            globalFingerprint f \<notin> ignoreSet (scanner srv))"
proof -
  let ?F = "fst (fst (ScanContent (scanner srv) uri content))"
  have "Get (cache (fst (snd (scanAndPublish env st srv uri content)))) content = (?F, True)"
    by (simp add: scanAndPublish_miss_cache [OF assms] Get_Put_same)
  moreover have "\<forall>f \<in> set ?F. globalFingerprint f \<notin> ignoreSet (scanner srv)"
    using ScanContent_not_ignored by blast
  ultimately show ?thesis by simp
qed

lemma example_scan:
  "fst (fst (ScanContent (scanner example_server) example_uri content)) =
     (if length content > 1000000 then []
      else [convertGitleaksFinding
              ((finding_of example_uri 1 ''aws-access-key'')\<lparr>StartColumn := 17, EndColumn := 36\<rparr>)])"
  by (simp add: ScanContent_def maxSize_def example_server_def example_detector_def example_uri_def
      finding_of_def globalFingerprint_def fmt_d_def dec.simps digit_def)

theorem cache_miss_stores_filtered_witness:
  "map globalFingerprint
     (fst (Get (cache (fst (snd (scanAndPublish example_env DefaultSettings example_server
        example_uri ''const awsKey = 1'')))) ''const awsKey = 1''))
     = [''file:///w/a.go:aws-access-key:1''] \<and>
   ''file:///w/a.go:generic-api-key:5'' \<in> ignoreSet (scanner example_server)"
proof -
  have miss: "\<not> snd (Get (cache example_server) ''const awsKey = 1'')"
    by (simp add: example_server_def NewCache_def Get_def)
  have "globalFingerprint (convertGitleaksFinding
          ((finding_of example_uri 1 ''aws-access-key'')\<lparr>StartColumn := 17, EndColumn := 36\<rparr>))
        = ''file:///w/a.go:aws-access-key:1''"
    by (simp add: globalFingerprint_def convertGitleaksFinding_def finding_of_def example_uri_def
        fmt_d_def dec.simps digit_def)
  moreover have "''file:///w/a.go:generic-api-key:5'' \<in> ignoreSet (scanner example_server)"
    by (simp add: example_server_def)
  ultimately show ?thesis
    using cache_miss_stores_filtered [OF miss, of example_env DefaultSettings example_uri]
    by (simp add: example_scan)
qed

text \<open>
  The same as an invariant of the server: every list in the cache is free of findings
  that the scanner of the server ignores. It holds for the server that \<open>SetupServer\<close>
  builds, and \<open>scanAndPublish\<close> and the two reload triggers keep it.
\<close>

lemma cache_filtered_SetupServer:
  "SetupServer env root newConfig = Inr srv \<Longrightarrow> cache_filtered srv"
  by (auto simp: SetupServer_def Let_def cache_filtered_def NewCache_def split: sum.splits)

lemma cache_filtered_scanAndPublish:
  assumes "cache_filtered srv"
  shows "cache_filtered (fst (snd (scanAndPublish env st srv uri content)))"
proof (cases "snd (Get (cache srv) content)")
  case True
  then show ?thesis
    using assms by (simp add: cache_filtered_def scanAndPublish_hit_cache scanAndPublish_scanner)
next
  case False
  then show ?thesis
    using assms ScanContent_not_ignored [of _ "scanner srv" uri content]
    by (auto simp: cache_filtered_def scanAndPublish_miss_cache scanAndPublish_scanner Put_def
        split: if_splits)
qed

lemma cache_filtered_onReload:
  "onReload env root (Some srv) = Some srv' \<Longrightarrow> cache_filtered srv'"
  by (auto simp: onReload_def Let_def cache_filtered_def Clear_def split: option.splits)

lemma cache_filtered_watchIgnoreFile_event:
  "cache_filtered srv \<Longrightarrow> watchIgnoreFile_event env root ev (Some srv) = Some srv' \<Longrightarrow>
     cache_filtered srv'"
  by (auto simp: watchIgnoreFile_event_def Let_def cache_filtered_def Clear_def
      split: option.splits if_splits)

text \<open>
  The field \<open>Fingerprint\<close> of a finding is 16 hexadecimal digits, and every entry that
  \<open>loadGitleaksIgnore\<close> accepts has a colon: the field is never a member of the ignore
  set of a scanner that \<open>NewScannerWithIgnore\<close> builds.
\<close>

lemma hexdigit_in: "hexdigit n \<in> set ''0123456789abcdef''"
proof -
  have "n mod 16 < length ''0123456789abcdef''" by simp
  then show ?thesis unfolding hexdigit_def by (rule nth_mem)
qed

lemma fmt_x_no_colon: "CHR '':'' \<notin> set (fmt_x bs)"
proof -
  have "set (fmt_x bs) \<subseteq> set ''0123456789abcdef''"
    using hexdigit_in by (auto simp: fmt_x_def)
  then show ?thesis by auto
qed

lemma calculateFingerprint_no_colon: "CHR '':'' \<notin> set (calculateFingerprint gf)"
  by (simp add: calculateFingerprint_def fmt_x_no_colon Let_def)

lemma Join_strings_colon:
  assumes "2 \<le> length parts"
  shows "CHR '':'' \<in> set (Join_strings parts '':'')"
proof -
  obtain p q rest where "parts = p # q # rest"
    using assms by (metis Suc_le_length_iff numeral_2_eq_2)
  then show ?thesis by simp
qed

lemma ignoreLines_colon:
  "x \<in> ignoreLines ls acc \<Longrightarrow> x \<in> acc \<or> CHR '':'' \<in> set x"
proof (induction ls arbitrary: acc)
  case Nil
  then show ?case by simp
next
  case (Cons ln rest)
  let ?parts = "Split (TrimSpace ln) CHR '':''"
  let ?j3 = "Join_strings (?parts[0 := replacer (?parts ! 0)]) '':''"
  let ?j4 = "Join_strings (?parts[1 := replacer (?parts ! 1)]) '':''"
  from Cons.prems consider
      "x \<in> ignoreLines rest acc"
    | "length ?parts = 3" "x \<in> ignoreLines rest (insert ?j3 acc)"
    | "length ?parts = 4" "x \<in> ignoreLines rest (insert ?j4 acc)"
    by (auto simp: Let_def split: if_splits)
  then show ?case
  proof cases
    case 1
    then show ?thesis by (rule Cons.IH)
  next
    case 2
    have "CHR '':'' \<in> set ?j3" by (rule Join_strings_colon) (simp add: 2(1))
    then show ?thesis using Cons.IH [OF 2(2)] by auto
  next
    case 3
    have "CHR '':'' \<in> set ?j4" by (rule Join_strings_colon) (simp add: 3(1))
    then show ?thesis using Cons.IH [OF 3(2)] by auto
  qed
qed

lemma NewScannerWithIgnore_colon:
  "x \<in> ignoreSet (NewScannerWithIgnore env c p) \<Longrightarrow> CHR '':'' \<in> set x"
  using ignoreLines_colon [of x _ "{}"]
  by (auto simp: NewScannerWithIgnore_def loadGitleaksIgnore_def Let_def
      split: if_splits sum.splits prod.splits)

lemma Fingerprint_field_never_ignored:
  "Fingerprint (convertGitleaksFinding gf) \<notin> ignoreSet (NewScannerWithIgnore env c p)"
  using NewScannerWithIgnore_colon [of "calculateFingerprint gf" env c p]
    calculateFingerprint_no_colon [of gf]
  by (auto simp: convertGitleaksFinding_def Let_def)

subsection \<open>Reload\<close>

lemma Get_Clear: "Get (Clear c) content = ([], False)"
  by (simp add: Get_def Clear_def)

lemma Size_Clear: "Size (Clear c) = 0"
  by (simp add: Size_def Clear_def)

lemma SetupServer_config: "SetupServer env root newConfig = Inr srv \<Longrightarrow> config' srv \<noteq> None"
  by (auto simp: SetupServer_def Let_def split: sum.splits)

lemma scanAndPublish_config:
  "config' (fst (snd (scanAndPublish env st srv uri content))) = config' srv"
  by (auto simp: scanAndPublish_def Let_def split: prod.splits option.splits)

text \<open>
  Claim C7. In a server with its configuration, as \<open>SetupServer\<close> builds it, each of the
  two reload triggers replaces the scanner by a new one, built from the current
  configuration and ignore file, and clears the cache: afterwards its size is 0 and no
  content is found in it. The ignore-file trigger is an event of the watcher for the file
  \<open>.gitleaksignore\<close> with the operation write or create.
\<close>

theorem reload_swaps_scanner_and_clears_cache:
  assumes "config' srv = Some c"
      and "Base (Name ev) = ''.gitleaksignore''"
      and "Ops ev \<inter> {Write, Create} \<noteq> {}"
  shows "\<exists>srv1 srv2.
           onReload env root (Some srv) = Some srv1 \<and>
           watchIgnoreFile_event env root ev (Some srv) = Some srv2 \<and>
           scanner srv1 = NewScannerWithIgnore env (GetConfig c) (findIgnoreFile env root) \<and>
           scanner srv2 = NewScannerWithIgnore env (GetConfig c) (findIgnoreFile env root) \<and>
           detector (scanner srv1) = NewDetector env (cfg c) \<and>
           detector (scanner srv2) = NewDetector env (cfg c) \<and>
           Size (cache srv1) = 0 \<and> Size (cache srv2) = 0 \<and>
           (\<forall>content. Get (cache srv1) content = ([], False)) \<and>
           (\<forall>content. Get (cache srv2) content = ([], False))"
  using assms
  by (simp add: onReload_def watchIgnoreFile_event_def Let_def Get_Clear Size_Clear
      NewScannerWithIgnore_def GetConfig_def)

lemma example_open_cache:
  "cache example_open =
     Put NewCache ''const awsKey = 1''
       [convertGitleaksFinding
          ((finding_of example_uri 1 ''aws-access-key'')\<lparr>StartColumn := 17, EndColumn := 36\<rparr>)]"
proof -
  let ?srv = "example_server\<lparr>documents := Set_doc (documents example_server) example_uri 1
                ''const awsKey = 1''\<rparr>"
  have miss: "\<not> snd (Get (cache ?srv) ''const awsKey = 1'')"
    by (simp add: example_server_def NewCache_def Get_def)
  have sc: "scanner ?srv = scanner example_server" "cache ?srv = NewCache"
    by (simp_all add: example_server_def)
  show ?thesis
    unfolding example_open_def textDocumentDidOpen_def
    by (simp add: scanAndPublish_miss_cache [OF miss] sc example_scan)
qed

lemma example_open_config:
  "config' example_open = Some \<lparr>path = [], rootPath = ''/w'', cfg = ()\<rparr>"
  by (simp add: example_open_def textDocumentDidOpen_def scanAndPublish_config example_server_def)

theorem reload_swaps_scanner_and_clears_cache_witness:
  "Size (cache example_open) = 1 \<and>
   fst (Get (cache example_open) ''const awsKey = 1'') \<noteq> [] \<and>
   (\<exists>srv1 srv2.
      onReload example_env ''/w'' (Some example_open) = Some srv1 \<and>
      watchIgnoreFile_event example_env ''/w'' \<lparr>Name = ''/w/.gitleaksignore'', Ops = {Write}\<rparr>
        (Some example_open) = Some srv2 \<and>
      Size (cache srv1) = 0 \<and> Size (cache srv2) = 0 \<and>
      Get (cache srv1) ''const awsKey = 1'' = ([], False) \<and>
      Get (cache srv2) ''const awsKey = 1'' = ([], False))"
proof -
  have b: "Base (Name \<lparr>Name = ''/w/.gitleaksignore'', Ops = {Write}\<rparr>) = ''.gitleaksignore''"
    by (simp add: Base_def)
  have o: "Ops \<lparr>Name = ''/w/.gitleaksignore'', Ops = {Write}\<rparr> \<inter> {Write, Create} \<noteq> {}"
    by simp
  have "Size NewCache = 0"
    by (simp add: Size_def NewCache_def)
  then have "Size (cache example_open) = 1"
    by (simp add: example_open_cache Size_Put) (simp add: NewCache_def)
  moreover have "fst (Get (cache example_open) ''const awsKey = 1'') \<noteq> []"
    by (simp add: example_open_cache Get_Put_same)
  ultimately show ?thesis
    using reload_swaps_scanner_and_clears_cache [OF example_open_config b o, of example_env "''/w''"]
    by auto
qed

subsection \<open>Hover\<close>





lemma scanAndPublish_doc:
  assumes "Get_doc (documents srv) uri = Some doc0"
      and "fst (scanAndPublish env st srv uri content) = None"
  shows "\<exists>doc. Get_doc (documents (fst (snd (scanAndPublish env st srv uri content)))) uri = Some doc \<and>
           Diagnostics doc = FindingsToDiagnostics env st (Findings doc)"
  using assms
  by (auto simp: scanAndPublish_def Let_def Get_doc_def split: prod.splits if_splits option.splits)





subsection \<open>\<open>collectFiles\<close>\<close>

lemma candidates_dead:
  "\<not> list_all (dir_survives g) up \<Longrightarrow> filter (survives g) (candidates p r up e) = []"
  "\<not> list_all (dir_survives g) up \<Longrightarrow> filter (survives g) (candidatesIn p r up es) = []"
  by (induction p r up e and p r up es rule: candidates_candidatesIn.induct)
     (auto simp: survives_def)

lemma walk_candidates:
  "list_all (dir_survives g) up \<Longrightarrow>
     walkDir g p r e = map cand_path (filter (survives g) (candidates p r up e))"
  "list_all (dir_survives g) up \<Longrightarrow>
     walkEntries g p r es = map cand_path (filter (survives g) (candidatesIn p r up es))"
proof (induction g p r e and g p r es arbitrary: up and up rule: walkDir_walkEntries.induct)
  case (1 gitignore p relPath name dirs)
  show ?case
  proof (cases "dir_survives gitignore (name, relPath)")
    case True
    then have pre: "\<not> HasPrefix name ''.''"
        "name \<notin> {''node_modules'', ''vendor'', ''__pycache__'', ''target'', ''build'', ''dist''}"
        "\<not> MatchesPath gitignore relPath"
      by (simp_all add: dir_survives_def)
    have all: "list_all (dir_survives gitignore) (up @ [(name, relPath)])"
      using True "1.prems" by simp
    have "walkDir gitignore p relPath (DirEntry name dirs) = walkEntries gitignore p relPath dirs"
      using pre by simp
    also have "\<dots> = map cand_path (filter (survives gitignore)
                 (candidatesIn p relPath (up @ [(name, relPath)]) dirs))"
      using "1.IH" [OF pre all] .
    finally show ?thesis by simp
  next
    case False
    then have dead: "\<not> list_all (dir_survives gitignore) (up @ [(name, relPath)])" by simp
    have "walkDir gitignore p relPath (DirEntry name dirs) = []"
      using False by (auto simp: dir_survives_def)
    then show ?thesis using candidates_dead(2) [OF dead] by simp
  qed
next
  case (2 gitignore p relPath name info)
  then show ?case by (auto simp: survives_def split: option.splits)
next
  case (3 gitignore p relPath)
  then show ?case by simp
next
  case (4 gitignore p relPath d1 rest)
  then show ?case by simp
qed

lemma collectFiles_no_error: "snd (collectFiles env root) = None"
  by (simp add: collectFiles_def Let_def split: option.splits)

lemma collectFiles_survivors:
  "collectFiles env root =
     (case os_Tree env root of
        None \<Rightarrow> []
      | Some d \<Rightarrow>
          map cand_path (filter (survives (loadGitignore env root)) (candidates root ''.'' [] d)),
      None)"
  by (simp add: collectFiles_def walk_candidates(1) [where up = "[]"] split: option.splits)

lemma collect_example_tree:
  "walkDir None ''/w'' ''.'' example_tree = [''/w/main.go'']"
  by (simp add: example_tree_def HasPrefix_def isBinaryExtension_def Ext_def ToLower_def
      binaryExts_def MatchesPath_def Join_def Rel_child_def)

lemma collect_example_tree_gitignore:
  "m ''debug.log'' \<Longrightarrow> \<not> m ''main.go'' \<Longrightarrow> \<not> m ''.'' \<Longrightarrow>
     walkDir (Some m) ''/w'' ''.'' example_tree_gitignore = [''/w/main.go'']"
  by (simp add: example_tree_gitignore_def HasPrefix_def isBinaryExtension_def Ext_def ToLower_def
      binaryExts_def MatchesPath_def Join_def Rel_child_def)

lemma collect_example_any_root:
  assumes "\<not> HasPrefix name ''.''"
      and "name \<notin> {''node_modules'', ''vendor'', ''__pycache__'', ''target'', ''build'', ''dist''}"
      and "root \<noteq> []" and "root \<noteq> ''/''"
  shows "walkDir None root ''.''
           (DirEntry name
              [DirEntry ''.git'' [FileEntry ''config'' (Some 11)],
               FileEntry ''.hidden'' (Some 12),
               FileEntry ''image.png'' (Some 7),
               FileEntry ''main.go'' (Some 13),
               DirEntry ''node_modules'' [FileEntry ''x.js'' (Some 7)]]) = [root @ ''/main.go'']"
  using assms
  by (simp add: HasPrefix_def isBinaryExtension_def Ext_def ToLower_def binaryExts_def
      MatchesPath_def Join_def Rel_child_def)

lemma collect_pruned_root:
  "HasPrefix name ''.'' \<or>
   name \<in> {''node_modules'', ''vendor'', ''__pycache__'', ''target'', ''build'', ''dist''} \<Longrightarrow>
     walkDir gitignore root relPath (DirEntry name dirs) = []"
  by auto

text \<open>
  Claim C8. \<open>collectFiles\<close> returns, in the order of the walk, exactly the files of the
  tree that survive every rule: no directory on the way to the file (the root included)
  and not the file itself has a name that starts with a dot; no such directory is one
  of the six dependency and build directories; the compiled \<open>.gitignore\<close>, when there is
  one, matches neither the relative path of such a directory nor that of the file; the
  extension of the file is not a known binary one; and its size is known and at most
  1,000,000 bytes. It returns no error. In a root \<open>/w\<close> with \<open>main.go\<close>, \<open>.hidden\<close>,
  \<open>.git/config\<close>, \<open>node_modules/x.js\<close> and \<open>image.png\<close> and no \<open>.gitignore\<close> it returns
  \<open>/w/main.go\<close> alone, and so it does in a root with \<open>main.go\<close>, \<open>debug.log\<close> and
  \<open>build/out.go\<close> whose \<open>.gitignore\<close> matches \<open>debug.log\<close> and neither \<open>main.go\<close> nor the
  root.
\<close>

theorem collectFiles_exclusion:
  "collectFiles env root =
     (case os_Tree env root of
        None \<Rightarrow> []
      | Some d \<Rightarrow>
          map cand_path (filter (survives (loadGitignore env root)) (candidates root ''.'' [] d)),
      None) \<and>
   (os_Tree env ''/w'' = Some example_tree \<and> loadGitignore env ''/w'' = None \<longrightarrow>
      collectFiles env ''/w'' = ([''/w/main.go''], None)) \<and>
   (os_Tree env ''/w'' = Some example_tree_gitignore \<and> loadGitignore env ''/w'' = Some m \<and>
    m ''debug.log'' \<and> \<not> m ''main.go'' \<and> \<not> m ''.'' \<longrightarrow>
      collectFiles env ''/w'' = ([''/w/main.go''], None))"
proof (intro conjI impI)
  show "collectFiles env root =
     (case os_Tree env root of
        None \<Rightarrow> []
      | Some d \<Rightarrow>
          map cand_path (filter (survives (loadGitignore env root)) (candidates root ''.'' [] d)),
      None)"
    by (rule collectFiles_survivors)
next
  assume "os_Tree env ''/w'' = Some example_tree \<and> loadGitignore env ''/w'' = None"
  then show "collectFiles env ''/w'' = ([''/w/main.go''], None)"
    by (simp add: collectFiles_def collect_example_tree)
next
  assume "os_Tree env ''/w'' = Some example_tree_gitignore \<and> loadGitignore env ''/w'' = Some m \<and>
    m ''debug.log'' \<and> \<not> m ''main.go'' \<and> \<not> m ''.''"
  then show "collectFiles env ''/w'' = ([''/w/main.go''], None)"
    by (simp add: collectFiles_def collect_example_tree_gitignore)
qed

theorem collectFiles_exclusion_witness:
  "collectFiles example_env ''/w'' = ([''/w/main.go''], None) \<and>
   collectFiles example_env_gitignore ''/w'' = ([''/w/main.go''], None) \<and>
   map cand_path (candidates ''/w'' ''.'' [] example_tree) =
     [''/w/.git/config'', ''/w/.hidden'', ''/w/image.png'', ''/w/main.go'', ''/w/node_modules/x.js'']"
proof -
  have 1: "os_Tree example_env ''/w'' = Some example_tree \<and> loadGitignore example_env ''/w'' = None"
    by (simp add: example_env_def loadGitignore_def Join_def)
  have 2: "os_Tree example_env_gitignore ''/w'' = Some example_tree_gitignore \<and>
      loadGitignore example_env_gitignore ''/w'' = Some example_gitignore \<and>
      example_gitignore ''debug.log'' \<and> \<not> example_gitignore ''main.go'' \<and> \<not> example_gitignore ''.''"
    by (simp add: example_env_gitignore_def example_env_def loadGitignore_def Join_def
        example_gitignore_def Ext_def HasPrefix_def)
  have 3: "map cand_path (candidates ''/w'' ''.'' [] example_tree) =
     [''/w/.git/config'', ''/w/.hidden'', ''/w/image.png'', ''/w/main.go'', ''/w/node_modules/x.js'']"
    by (simp add: example_tree_def Join_def Rel_child_def)
  show ?thesis
    using collectFiles_exclusion [of example_env "''/w''" example_gitignore]
      collectFiles_exclusion [of example_env_gitignore "''/w''" example_gitignore] 1 2 3
    by blast
qed

subsection \<open>The workspace scan\<close>

lemma isBinaryContent_head:
  "isBinaryContent env content \<longleftrightarrow> filetype_Match env (take 262 content) \<noteq> None"
  by (simp add: isBinaryContent_def Let_def)

lemma scanFile_error:
  "snd (fst (scanFile env s f)) \<noteq> None \<longleftrightarrow> (\<exists>err. os_ReadFile env f = Inl err)"
  by (cases "os_ReadFile env f") (auto simp: scanFile_def ScanContent_def Let_def)

lemma goroutine_counters:
  "scanned (goroutine env s f sh) = scanned sh + (if isl (os_ReadFile env f) then 0 else 1)"
  "skipped (goroutine env s f sh) = skipped sh + (if isl (os_ReadFile env f) then 1 else 0)"
  using scanFile_error [of env s f]
  by (cases "os_ReadFile env f"; auto simp: goroutine_def Let_def split: prod.splits)+

lemma foldl_goroutine_counters:
  "scanned (foldl (\<lambda>sh file. goroutine env s file sh) sh0 fs) =
     scanned sh0 + int (length (filter (\<lambda>f. \<not> isl (os_ReadFile env f)) fs))"
  "skipped (foldl (\<lambda>sh file. goroutine env s file sh) sh0 fs) =
     skipped sh0 + int (length (filter (\<lambda>f. isl (os_ReadFile env f)) fs))"
  by (induction fs arbitrary: sh0) (simp_all add: goroutine_counters)

lemma run_goroutines_counters:
  "scanned (run_goroutines env s fs) = int (length (filter (\<lambda>f. \<not> isl (os_ReadFile env f)) fs))"
  "skipped (run_goroutines env s fs) = int (length (filter (\<lambda>f. isl (os_ReadFile env f)) fs))"
  by (simp_all add: run_goroutines_def foldl_goroutine_counters)

text \<open>
  Claim C5. A file that is read and whose content is binary by its first 262 bytes is
  not scanned further: \<open>scanFile\<close> returns no findings and no error without a call of
  the detector, and the goroutine of the file adds one to the counter of scanned files
  and changes nothing else. Neither function looks at the name of the file.
\<close>

theorem binary_content_counted_as_scanned:
  assumes "os_ReadFile env filePath = Inr content"
      and "filetype_Match env (take 262 content) \<noteq> None"
  shows "isBinaryContent env content \<and>
         scanFile env s filePath = (([], None), []) \<and>
         goroutine env s filePath sh = sh\<lparr>scanned := scanned sh + 1\<rparr>"
  using assms by (simp add: scanFile_def goroutine_def isBinaryContent_head)

theorem binary_content_counted_as_scanned_witness:
  "scanFile example_env example_server ''/w/logo'' = (([], None), []) \<and>
   goroutine example_env example_server ''/w/logo'' \<lparr>scanned = 0, skipped = 0, found = Map.empty\<rparr> =
     \<lparr>scanned = 1, skipped = 0, found = Map.empty\<rparr>"
proof -
  have r: "os_ReadFile example_env ''/w/logo'' = Inr (png_magic @ ''rest'')"
    by (simp add: example_env_def)
  have b: "filetype_Match example_env (take 262 (png_magic @ ''rest'')) \<noteq> None"
    by (simp add: example_env_def png_magic_def)
  show ?thesis
    using binary_content_counted_as_scanned [OF r b, of example_server
        "\<lparr>scanned = 0, skipped = 0, found = Map.empty\<rparr>"]
    by simp
qed

lemma dispatch_Cons_None:
  "ctxErr i = None \<Longrightarrow>
     fst (fst (dispatch ctxErr pr i (f # fs))) = f # fst (fst (dispatch ctxErr pr (Suc i) fs)) \<and>
     snd (dispatch ctxErr pr i (f # fs)) = snd (dispatch ctxErr pr (Suc i) fs)"
  by (simp add: case_prod_beta Let_def)


lemma dispatch_all:
  "\<forall>j<length fs. ctxErr (i + j) = None \<Longrightarrow>
     fst (fst (dispatch ctxErr pr i fs)) = fs \<and> snd (dispatch ctxErr pr i fs) = None"
proof (induction fs arbitrary: i)
  case Nil
  then show ?case by simp
next
  case (Cons f fs)
  have none: "ctxErr i = None" using Cons.prems by force
  have "\<forall>j<length fs. ctxErr (Suc i + j) = None"
  proof (intro allI impI)
    fix j assume "j < length fs"
    then have "ctxErr (i + Suc j) = None" using Cons.prems by force
    then show "ctxErr (Suc i + j) = None" by simp
  qed
  then have "fst (fst (dispatch ctxErr pr (Suc i) fs)) = fs \<and>
             snd (dispatch ctxErr pr (Suc i) fs) = None"
    by (rule Cons.IH)
  then show ?case
    using none by (simp add: dispatch_Cons_None [of ctxErr i pr f fs] del: dispatch.simps)
qed


lemma ScanWorkspace_full:
  assumes "root \<noteq> []" and "collectFiles env root = (files, None)"
      and "dispatch ctxErr progress 0 files = ((started, reports), None)"
  shows "\<exists>result. ScanWorkspace env s ctxErr finished root progress =
           ((Some result, None), started, reports) \<and>
           TotalFiles result = int (length files) \<and>
           ScannedFiles result = scanned (run_goroutines env s started) \<and>
           SkippedFiles result = skipped (run_goroutines env s started) \<and>
           Findings' result = found (run_goroutines env s started)"
  using assms by (simp add: ScanWorkspace_def Let_def)




text \<open>
  A scan that is not cancelled counts every file that could be read as scanned, binary
  or not, and every other file as skipped.
\<close>

lemma ScanWorkspace_counts:
  assumes "root \<noteq> []" and "\<forall>i<length (fst (collectFiles env root)). ctxErr i = None"
  shows "\<exists>result reports.
           ScanWorkspace env s ctxErr finished root progress =
             ((Some result, None), fst (collectFiles env root), reports) \<and>
           ScannedFiles result =
             int (length (filter (\<lambda>f. \<not> isl (os_ReadFile env f)) (fst (collectFiles env root)))) \<and>
           SkippedFiles result =
             int (length (filter (\<lambda>f. isl (os_ReadFile env f)) (fst (collectFiles env root))))"
proof -
  obtain files where cf: "collectFiles env root = (files, None)"
    using collectFiles_no_error [of env root] by (metis prod.collapse)
  have "fst (fst (dispatch ctxErr progress 0 files)) = files \<and>
        snd (dispatch ctxErr progress 0 files) = None"
    using assms(2) dispatch_all [of files ctxErr 0 progress] by (simp add: cf)
  then obtain rp where "dispatch ctxErr progress 0 files = ((files, rp), None)"
    by (metis prod.collapse)
  from ScanWorkspace_full [OF assms(1) cf this, of s finished]
  show ?thesis by (auto simp: cf run_goroutines_counters)
qed

end
